theory Spec2Isabelle
  imports Main "HOL-Library.Word"
begin

section \<open>Values, exceptions and the outside world\<close>

text \<open>
  A decoded JSON value, as Python holds it: \<open>None\<close>, \<open>bool\<close>, \<open>int\<close> (unbounded),
  \<open>float\<close> (a 64-bit double, kept as its bit pattern), \<open>str\<close>, \<open>list\<close> and \<open>dict\<close>.
  A \<open>dict\<close> keeps insertion order, so it is an association list.
\<close>

datatype json =
    JNull
  | JBool bool
  | JInt int
  | JFloat "64 word"
  | JStr string
  | JArr "json list"
  | JObj "(string \<times> json) list"

text \<open>
  The exceptions that reach the code of \<open>restful.py\<close>, each with the text that
  \<open>str(e)\<close> gives. \<open>SystemExit\<close> carries the exit status; it is not an
  \<open>Exception\<close>, so \<open>except Exception\<close> does not catch it.
\<close>

datatype exn =
    ValueError string
  | RequestException string
  | IndexError string
  | AttributeError string
  | TypeError string
  | OSError string
  | RecursionError string
  | SystemExit int

fun is_Exception :: "exn \<Rightarrow> bool" where
  "is_Exception (SystemExit _) = False"
| "is_Exception _ = True"

fun exn_str :: "exn \<Rightarrow> string" where
  "exn_str (ValueError m) = m"
| "exn_str (RequestException m) = m"
| "exn_str (IndexError m) = m"
| "exn_str (AttributeError m) = m"
| "exn_str (TypeError m) = m"
| "exn_str (OSError m) = m"
| "exn_str (RecursionError m) = m"
| "exn_str (SystemExit n) = []"

text \<open>An HTTP response as \<open>requests\<close> returns it: the status code and the body text.\<close>

record response =
  status_code :: int
  content :: string

datatype http_request = HttpGet string | HttpPost string json

text \<open>
  What the program changes: the lines printed, the files written (path to content) and
  the requests handed to \<open>requests.get\<close> and \<open>requests.post\<close>.
\<close>

record world =
  stdout :: "string list"
  files :: "string \<Rightarrow> string option"
  net_log :: "http_request list"

text \<open>
  The ways \<open>json.loads\<close> fails on a string, each with its message: a
  \<open>JSONDecodeError\<close> (a \<open>ValueError\<close>) on a text it cannot parse, a plain
  \<open>ValueError\<close> on an integer literal beyond the digit limit, and a
  \<open>RecursionError\<close> on a text nested beyond the recursion limit.
\<close>

datatype decode_failure =
    JSONDecodeError string
  | PlainValueError string
  | RecursionDepth string

text \<open>
  What the program calls and does not define: the remote server behind \<open>requests\<close>
  (\<open>Inl m\<close> is a \<open>RequestException\<close> with text \<open>m\<close>), \<open>json.loads\<close> on the
  texts that come from outside, the payload and the body of the response, the JSON
  text of a float, whether \<open>open(path, "w")\<close> fails (\<open>Some m\<close> is an \<open>OSError\<close>),
  \<open>str\<close> of a float, list or dict, and the text \<open>csv.DictWriter\<close> puts after
  \<open>dict contains fields not in fieldnames:\<close>.
\<close>

record env =
  http :: "http_request \<Rightarrow> string + response"
  json_loads :: "string \<Rightarrow> decode_failure + json"
  json_float :: "64 word \<Rightarrow> string"
  open_w :: "string \<Rightarrow> string option"
  py_repr :: "json \<Rightarrow> string"
  repr_fields :: "string list \<Rightarrow> string"

section \<open>Library functions with a fixed meaning\<close>

definition sq :: char where
  "sq = CHR 0x27"

definition CR :: char where
  "CR = CHR 0x0D"

definition LF :: char where
  "LF = CHR 0x0A"

definition DQ :: char where
  "DQ = CHR 0x22"

definition digit_char :: "nat \<Rightarrow> char" where
  "digit_char n = char_of (48 + n)"

fun str_nat :: "nat \<Rightarrow> string" where
  "str_nat n = (if n < 10 then [digit_char n] else str_nat (n div 10) @ [digit_char (n mod 10)])"

declare str_nat.simps [simp del]

text \<open>\<open>str\<close> of a Python \<open>int\<close>.\<close>

definition str_int :: "int \<Rightarrow> string" where
  "str_int i = (if i < 0 then CHR ''-'' # str_nat (nat (- i)) else str_nat (nat i))"

text \<open>
  \<open>str.lower\<close> on the characters up to U+00FF: the letters A to Z, and the letters
  from U+00C0 to U+00DE but for the multiplication sign U+00D7, move up by 32.
\<close>

definition lower_char :: "char \<Rightarrow> char" where
  "lower_char c =
     (let n = (of_char c :: nat)
      in if 65 \<le> n \<and> n \<le> 90 \<or> 192 \<le> n \<and> n \<le> 222 \<and> n \<noteq> 215
         then char_of (n + 32) else c)"

definition lower :: "string \<Rightarrow> string" where
  "lower s = map lower_char s"

text \<open>Truth value of an argument that is \<open>None\<close> or a \<open>str\<close>: false for \<open>None\<close> and for \<open>""\<close>.\<close>

fun truthy :: "string option \<Rightarrow> bool" where
  "truthy None = False"
| "truthy (Some s) = (s \<noteq> [])"

text \<open>
  \<open>os.path.splitext\<close> (POSIX): the extension starts at the last dot of the last path
  component, unless only dots precede it there.
\<close>

definition after_last :: "char \<Rightarrow> string \<Rightarrow> string" where
  "after_last c s = rev (takeWhile (\<lambda>x. x \<noteq> c) (rev s))"

definition splitext :: "string \<Rightarrow> string \<times> string" where
  "splitext p =
     (let base = after_last CHR ''/'' p;
          ext = CHR ''.'' # after_last CHR ''.'' base;
          stem = take (length base - length ext) base
      in if CHR ''.'' \<in> set base \<and> (\<exists>c \<in> set stem. c \<noteq> CHR ''.'')
         then (take (length p - length ext) p, ext)
         else (p, []))"

text \<open>
  \<open>Response.ok\<close> of \<open>requests\<close>: true unless \<open>raise_for_status\<close> raises, which it
  does for the codes from 400 to 599.
\<close>

definition ok :: "response \<Rightarrow> bool" where
  "ok r = (\<not> (400 \<le> status_code r \<and> status_code r < 600))"

text \<open>
  \<open>Response.json()\<close>: the body text through \<open>json.loads\<close>; a \<open>JSONDecodeError\<close> is
  raised again as \<open>requests.exceptions.JSONDecodeError\<close>, a \<open>RequestException\<close>;
  the other failures pass as they are.
\<close>

definition response_json :: "env \<Rightarrow> response \<Rightarrow> exn + json" where
  "response_json E r =
     (case json_loads E (content r) of
        Inl (JSONDecodeError m) \<Rightarrow> Inl (RequestException m)
      | Inl (PlainValueError m) \<Rightarrow> Inl (ValueError m)
      | Inl (RecursionDepth m) \<Rightarrow> Inl (RecursionError m)
      | Inr v \<Rightarrow> Inr v)"

definition print_line :: "string \<Rightarrow> world \<Rightarrow> world" where
  "print_line s w = w\<lparr>stdout := stdout w @ [s]\<rparr>"

text \<open>\<open>requests.get(url)\<close> and \<open>requests.post(url, json=v)\<close>: the call is logged.\<close>

definition requests_call :: "env \<Rightarrow> http_request \<Rightarrow> world \<Rightarrow> (exn + response) \<times> world" where
  "requests_call E req w =
     (case http E req of
        Inl m \<Rightarrow> (Inl (RequestException m), w\<lparr>net_log := net_log w @ [req]\<rparr>)
      | Inr r \<Rightarrow> (Inr r, w\<lparr>net_log := net_log w @ [req]\<rparr>))"

text \<open>
  \<open>open(path, "w")\<close>: a path of \<open>None\<close> is a \<open>TypeError\<close>, a path the system refuses
  an \<open>OSError\<close>; otherwise the file exists and is empty.
\<close>

definition py_open_w :: "env \<Rightarrow> string option \<Rightarrow> world \<Rightarrow> (exn + string) \<times> world" where
  "py_open_w E po w =
     (case po of
        None \<Rightarrow> (Inl (TypeError ''expected str, bytes or os.PathLike object, not NoneType''), w)
      | Some p \<Rightarrow>
          (case open_w E p of
             Some m \<Rightarrow> (Inl (OSError m), w)
           | None \<Rightarrow> (Inr p, w\<lparr>files := (files w)(p \<mapsto> [])\<rparr>)))"

definition file_append :: "string \<Rightarrow> string \<Rightarrow> world \<Rightarrow> world" where
  "file_append p s w =
     w\<lparr>files := (files w)(p \<mapsto> (case files w p of None \<Rightarrow> s | Some t \<Rightarrow> t @ s))\<rparr>"

fun type_name :: "json \<Rightarrow> string" where
  "type_name JNull = ''NoneType''"
| "type_name (JBool _) = ''bool''"
| "type_name (JInt _) = ''int''"
| "type_name (JFloat _) = ''float''"
| "type_name (JStr _) = ''str''"
| "type_name (JArr _) = ''list''"
| "type_name (JObj _) = ''dict''"

definition no_attribute :: "json \<Rightarrow> string \<Rightarrow> exn" where
  "no_attribute v a =
     AttributeError ([sq] @ type_name v @ [sq] @ '' object has no attribute '' @ [sq] @ a @ [sq])"

text \<open>\<open>str(v)\<close>.\<close>

fun py_str :: "env \<Rightarrow> json \<Rightarrow> string" where
  "py_str E JNull = ''None''"
| "py_str E (JBool b) = (if b then ''True'' else ''False'')"
| "py_str E (JInt i) = str_int i"
| "py_str E (JStr s) = s"
| "py_str E v = py_repr E v"

subsection \<open>The csv module\<close>

text \<open>
  The text of one field, as \<open>csv.writer\<close> takes it: \<open>None\<close> is the empty string, a
  string is itself, anything else goes through \<open>str\<close>.
\<close>

fun csv_field_text :: "env \<Rightarrow> json \<Rightarrow> string" where
  "csv_field_text E JNull = []"
| "csv_field_text E (JStr s) = s"
| "csv_field_text E v = py_str E v"

text \<open>
  The excel dialect with minimal quoting: a field holding a comma, a double quote, a
  carriage return or a line feed is put in double quotes, with its double quotes
  doubled; a row that is one empty field is written as two double quotes; every row
  ends with CR LF.
\<close>

definition csv_special :: "char \<Rightarrow> bool" where
  "csv_special c = (c = CHR '','' \<or> c = DQ \<or> c = CR \<or> c = LF)"

definition csv_escape :: "string \<Rightarrow> string" where
  "csv_escape f = concat (map (\<lambda>c. if c = DQ then [c, c] else [c]) f)"

definition csv_quote :: "string \<Rightarrow> string" where
  "csv_quote f = (if \<exists>c \<in> set f. csv_special c then DQ # csv_escape f @ [DQ] else f)"

fun join :: "string \<Rightarrow> string list \<Rightarrow> string" where
  "join s [] = []"
| "join s [x] = x"
| "join s (x # y # ys) = x @ s @ join s (y # ys)"

definition csv_line :: "string list \<Rightarrow> string" where
  "csv_line fs =
     (if fs = [[]] then [DQ, DQ] else join '','' (map csv_quote fs)) @ [CR, LF]"

text \<open>\<open>rowdict.get(key, restval)\<close>, with \<open>restval\<close> the empty string.\<close>

definition dict_get :: "(string \<times> json) list \<Rightarrow> string \<Rightarrow> json" where
  "dict_get kvs k = (case map_of kvs k of Some v \<Rightarrow> v | None \<Rightarrow> JStr [])"

text \<open>
  \<open>DictWriter._dict_to_list\<close>: a row with a key outside the field names is a
  \<open>ValueError\<close>; a field name the row lacks gives the empty string.
\<close>

fun dict_to_list :: "env \<Rightarrow> string list \<Rightarrow> json \<Rightarrow> exn + json list" where
  "dict_to_list E fieldnames (JObj kvs) =
     (let wrong = filter (\<lambda>k. k \<notin> set fieldnames) (map fst kvs)
      in if wrong \<noteq> []
         then Inl (ValueError (''dict contains fields not in fieldnames: '' @ repr_fields E wrong))
         else Inr (map (dict_get kvs) fieldnames))"
| "dict_to_list E fieldnames v = Inl (no_attribute v ''keys'')"

definition csv_writerow :: "env \<Rightarrow> json list \<Rightarrow> string" where
  "csv_writerow E vs = csv_line (map (csv_field_text E) vs)"

text \<open>
  \<open>DictWriter.writerows\<close>: the rows are converted and written one after the other, so
  the rows before a failing one are in the file.
\<close>

fun writerows :: "env \<Rightarrow> string list \<Rightarrow> string \<Rightarrow> json list \<Rightarrow> world \<Rightarrow> (exn + unit) \<times> world" where
  "writerows E fieldnames p [] w = (Inr (), w)"
| "writerows E fieldnames p (r # rs) w =
     (case dict_to_list E fieldnames r of
        Inl e \<Rightarrow> (Inl e, w)
      | Inr vs \<Rightarrow> writerows E fieldnames p rs (file_append p (csv_writerow E vs) w))"

text \<open>\<open>data[0].keys()\<close>.\<close>

fun first_keys :: "json list \<Rightarrow> exn + string list" where
  "first_keys [] = Inl (IndexError ''list index out of range'')"
| "first_keys (JObj kvs # _) = Inr (map fst kvs)"
| "first_keys (v # _) = Inl (no_attribute v ''keys'')"

subsection \<open>The json module\<close>

text \<open>
  \<open>json.dumps\<close> with \<open>ensure_ascii\<close> and an indent: a string is put in double
  quotes, with the double quote, the backslash and every character outside the
  printable ASCII range escaped; a non-empty list or dict puts each item on a line of
  its own, indented by its depth, with \<open>,\<close> between the items and \<open>: \<close> after a
  key.
\<close>

definition BS :: char where
  "BS = CHR 0x5C"

definition hex_digit :: "nat \<Rightarrow> char" where
  "hex_digit d = char_of (if d < 10 then 48 + d else 87 + d)"

definition json_escape_char :: "char \<Rightarrow> string" where
  "json_escape_char c =
     (if c = DQ then [BS, DQ]
      else if c = BS then [BS, BS]
      else if c = LF then [BS, CHR ''n'']
      else if c = CR then [BS, CHR ''r'']
      else if c = CHR 0x09 then [BS, CHR ''t'']
      else if c = CHR 0x08 then [BS, CHR ''b'']
      else if c = CHR 0x0C then [BS, CHR ''f'']
      else if of_char c < (32::nat) \<or> (126::nat) < of_char c
      then [BS, CHR ''u'', CHR ''0'', CHR ''0'',
            hex_digit (of_char c div 16), hex_digit (of_char c mod 16)]
      else [c])"

definition json_string :: "string \<Rightarrow> string" where
  "json_string s = DQ # concat (map json_escape_char s) @ [DQ]"

definition newline_indent :: "nat \<Rightarrow> nat \<Rightarrow> string" where
  "newline_indent n l = LF # replicate (n * l) CHR '' ''"

fun json_encode :: "env \<Rightarrow> nat \<Rightarrow> nat \<Rightarrow> json \<Rightarrow> string" where
  "json_encode E n l JNull = ''null''"
| "json_encode E n l (JBool b) = (if b then ''true'' else ''false'')"
| "json_encode E n l (JInt i) = str_int i"
| "json_encode E n l (JFloat w) = json_float E w"
| "json_encode E n l (JStr s) = json_string s"
| "json_encode E n l (JArr xs) =
     (if xs = [] then ''[]''
      else ''['' @ newline_indent n (Suc l)
           @ join ('','' @ newline_indent n (Suc l)) (map (json_encode E n (Suc l)) xs)
           @ newline_indent n l @ '']'')"
| "json_encode E n l (JObj kvs) =
     (if kvs = [] then ''{}''
      else ''{'' @ newline_indent n (Suc l)
           @ join ('','' @ newline_indent n (Suc l))
               (map (\<lambda>kv. json_string (fst kv) @ '': '' @ json_encode E n (Suc l) (snd kv)) kvs)
           @ newline_indent n l @ ''}'')"

text \<open>\<open>json.dumps(v, indent=n)\<close>; \<open>json.dump\<close> writes the same text to the file.\<close>

definition json_dumps :: "env \<Rightarrow> nat \<Rightarrow> json \<Rightarrow> string" where
  "json_dumps E n v = json_encode E n 0 v"

section \<open>The argument parser of \<open>main\<close>\<close>

text \<open>
  The command line as \<open>argparse\<close> sees it once the options are told from the
  positional arguments: the positional tokens in order, and the values of
  \<open>-d/--data\<close> and \<open>-o/--output\<close> when given.
\<close>

record cmdline =
  positionals :: "string list"
  opt_data :: "string option"
  opt_output :: "string option"

record args =
  arg_method :: string
  arg_endpoint :: string
  arg_data :: "string option"
  arg_output :: "string option"

datatype usage_error =
    MissingRequired "string list"
  | InvalidChoice string
  | Unrecognized "string list"

definition method_choices :: "string list" where
  "method_choices = [''get'', ''post'']"

text \<open>
  \<open>parse_args\<close>: the first positional is \<open>method\<close> and is checked against
  \<open>choices\<close> as soon as it is taken; the second is \<open>endpoint\<close>; both are required and
  nothing may follow them.
\<close>

fun parse_args :: "cmdline \<Rightarrow> usage_error + args" where
  "parse_args c =
     (case positionals c of
        [] \<Rightarrow> Inl (MissingRequired [''method'', ''endpoint''])
      | m # rest \<Rightarrow>
          if m \<notin> set method_choices then Inl (InvalidChoice m)
          else (case rest of
                  [] \<Rightarrow> Inl (MissingRequired [''endpoint''])
                | [e] \<Rightarrow> Inr \<lparr>arg_method = m, arg_endpoint = e,
                              arg_data = opt_data c, arg_output = opt_output c\<rparr>
                | e # extra \<Rightarrow> Inl (Unrecognized extra)))"

section \<open>\<open>RestClient\<close>\<close>

record rest_client =
  "method" :: string
  endpoint :: string
  data :: "string option"
  "output" :: "string option"

definition BASE_URL :: string where
  "BASE_URL = ''https://jsonplaceholder.typicode.com''"

definition RestClient_init ::
  "string \<Rightarrow> string \<Rightarrow> string option \<Rightarrow> string option \<Rightarrow> rest_client" where
  "RestClient_init m e d out = \<lparr>method = lower m, endpoint = e, data = d, output = out\<rparr>"

text \<open>The handler of \<open>save_json\<close> and \<open>save_csv\<close>: \<open>except Exception as e\<close>.\<close>

definition file_write_handler :: "(exn + unit) \<times> world \<Rightarrow> (exn + unit) \<times> world" where
  "file_write_handler rw =
     (case rw of
        (Inr u, w) \<Rightarrow> (Inr u, w)
      | (Inl e, w) \<Rightarrow>
          if is_Exception e
          then (Inl (SystemExit 1), print_line (''File write error: '' @ exn_str e) w)
          else (Inl e, w))"

definition save_json :: "env \<Rightarrow> rest_client \<Rightarrow> json \<Rightarrow> world \<Rightarrow> (exn + unit) \<times> world" where
  "save_json E self dat w =
     file_write_handler
       (case py_open_w E (output self) w of
          (Inl e, w1) \<Rightarrow> (Inl e, w1)
        | (Inr p, w1) \<Rightarrow>
            (Inr (), print_line (''Response successfully saved to '' @ p)
                       (file_append p (json_dumps E 4 dat) w1)))"

definition save_csv :: "env \<Rightarrow> rest_client \<Rightarrow> json \<Rightarrow> world \<Rightarrow> (exn + unit) \<times> world" where
  "save_csv E self dat w =
     (let rows = (case dat of JArr xs \<Rightarrow> xs | _ \<Rightarrow> [dat])
      in file_write_handler
           (case py_open_w E (output self) w of
              (Inl e, w1) \<Rightarrow> (Inl e, w1)
            | (Inr p, w1) \<Rightarrow>
                (case first_keys rows of
                   Inl e \<Rightarrow> (Inl e, w1)
                 | Inr fieldnames \<Rightarrow>
                     (case writerows E fieldnames p rows
                             (file_append p (csv_line fieldnames) w1) of
                        (Inl e, w2) \<Rightarrow> (Inl e, w2)
                      | (Inr u, w2) \<Rightarrow>
                          (Inr (), print_line (''Response successfully saved to '' @ p) w2)))))"

definition save_response :: "env \<Rightarrow> rest_client \<Rightarrow> json \<Rightarrow> world \<Rightarrow> (exn + unit) \<times> world" where
  "save_response E self dat w =
     (case output self of
        None \<Rightarrow> (Inl (TypeError ''expected str, bytes or os.PathLike object, not NoneType''), w)
      | Some p \<Rightarrow>
          (let ext = snd (splitext p)
           in if ext = ''.json'' then save_json E self dat w
              else if ext = ''.csv'' then save_csv E self dat w
              else (Inl (SystemExit 1),
                    print_line (''Error: Unsupported file format '' @ [sq] @ ext @ [sq] @ ''.'') w)))"

definition handle_response :: "env \<Rightarrow> rest_client \<Rightarrow> response \<Rightarrow> world \<Rightarrow> (exn + unit) \<times> world" where
  "handle_response E self r w =
     (let w1 = print_line (''HTTP Status Code: '' @ str_int (status_code r)) w
      in if \<not> ok r
         then (Inl (SystemExit 1), print_line ''Error: Request was not successful.'' w1)
         else if truthy (output self)
         then (case response_json E r of
                 Inl e \<Rightarrow> (Inl e, w1)
               | Inr v \<Rightarrow> save_response E self v w1)
         else (case response_json E r of
                 Inl e \<Rightarrow> (Inl e, w1)
               | Inr v \<Rightarrow> (Inr (), print_line (json_dumps E 4 v) w1)))"

text \<open>
  The first statement of the \<open>try\<close> block of \<open>send_request\<close>: the branch on the method
  that yields the response.
\<close>

definition issue_request :: "env \<Rightarrow> rest_client \<Rightarrow> world \<Rightarrow> (exn + response) \<times> world" where
  "issue_request E self w =
     (let url = BASE_URL @ endpoint self
      in if method self = ''get'' then requests_call E (HttpGet url) w
         else if method self = ''post''
         then (if \<not> truthy (data self)
               then (Inl (ValueError ''For POST requests, data is required.''), w)
               else (case json_loads E (the (data self)) of
                       Inl (JSONDecodeError m) \<Rightarrow> (Inl (ValueError m), w)
                     | Inl (PlainValueError m) \<Rightarrow> (Inl (ValueError m), w)
                     | Inl (RecursionDepth m) \<Rightarrow> (Inl (RecursionError m), w)
                     | Inr v \<Rightarrow> requests_call E (HttpPost url v) w))
         else (Inl (ValueError (''Unsupported HTTP method: '' @ method self)), w))"

definition send_request :: "env \<Rightarrow> rest_client \<Rightarrow> world \<Rightarrow> (exn + unit) \<times> world" where
  "send_request E self w =
     (case (case issue_request E self w of
              (Inl e, w1) \<Rightarrow> (Inl e, w1)
            | (Inr r, w1) \<Rightarrow> handle_response E self r w1) of
        (Inl (RequestException m), w2) \<Rightarrow>
          (Inl (SystemExit 1), print_line (''Network error: '' @ m) w2)
      | (Inl (ValueError m), w2) \<Rightarrow>
          (Inl (SystemExit 1), print_line (''Invalid input: '' @ m) w2)
      | (res, w2) \<Rightarrow> (res, w2))"

text \<open>\<open>main\<close>: a usage error of the parser ends the process with status 2.\<close>

definition main :: "env \<Rightarrow> cmdline \<Rightarrow> world \<Rightarrow> (exn + unit) \<times> world" where
  "main E c w =
     (case parse_args c of
        Inl u \<Rightarrow> (Inl (SystemExit 2), w)
      | Inr a \<Rightarrow>
          send_request E
            (RestClient_init (arg_method a) (arg_endpoint a) (arg_data a) (arg_output a)) w)"

text \<open>
  The exit status of the process: that of \<open>sys.exit\<close>, 1 after an exception that
  nothing catches, 0 after a normal return.
\<close>

fun exit_status :: "exn + unit \<Rightarrow> int" where
  "exit_status (Inr _) = 0"
| "exit_status (Inl (SystemExit n)) = n"
| "exit_status (Inl _) = 1"

section \<open>Reading a saved CSV file back\<close>

text \<open>
  Reparsing a saved CSV file with \<open>csv.reader\<close> in the same dialect, the file opened
  with \<open>newline=''\<close>: the reader's automaton, run over the whole text. A line ends at
  CR, LF or CR LF outside double quotes; an empty line is the empty row.
\<close>

datatype rstate =
    START_RECORD
  | AFTER_CR
  | START_FIELD
  | IN_FIELD
  | IN_QUOTED_FIELD
  | QUOTE_IN_QUOTED_FIELD

text \<open>The first character of a field, when it is not a line end.\<close>

definition start_field :: "char \<Rightarrow> string list \<Rightarrow> rstate \<times> string \<times> string list" where
  "start_field c fs =
     (if c = DQ then (IN_QUOTED_FIELD, [], fs)
      else if c = CHR '','' then (START_FIELD, [], fs @ [[]])
      else (IN_FIELD, [c], fs))"

fun reader_run :: "rstate \<Rightarrow> string \<Rightarrow> string list \<Rightarrow> string \<Rightarrow> string list list" where
  "reader_run st f fs [] =
     (if st = START_RECORD \<or> st = AFTER_CR then [] else [fs @ [f]])"
| "reader_run START_RECORD f fs (c # cs) =
     (if c = CR then [] # reader_run AFTER_CR [] [] cs
      else if c = LF then [] # reader_run START_RECORD [] [] cs
      else (case start_field c [] of (st', f', fs') \<Rightarrow> reader_run st' f' fs' cs))"
| "reader_run AFTER_CR f fs (c # cs) =
     (if c = LF then reader_run START_RECORD [] [] cs
      else if c = CR then [] # reader_run AFTER_CR [] [] cs
      else (case start_field c [] of (st', f', fs') \<Rightarrow> reader_run st' f' fs' cs))"
| "reader_run START_FIELD f fs (c # cs) =
     (if c = CR then (fs @ [[]]) # reader_run AFTER_CR [] [] cs
      else if c = LF then (fs @ [[]]) # reader_run START_RECORD [] [] cs
      else (case start_field c fs of (st', f', fs') \<Rightarrow> reader_run st' f' fs' cs))"
| "reader_run IN_FIELD f fs (c # cs) =
     (if c = CR then (fs @ [f]) # reader_run AFTER_CR [] [] cs
      else if c = LF then (fs @ [f]) # reader_run START_RECORD [] [] cs
      else if c = CHR '','' then reader_run START_FIELD [] (fs @ [f]) cs
      else reader_run IN_FIELD (f @ [c]) fs cs)"
| "reader_run IN_QUOTED_FIELD f fs (c # cs) =
     (if c = DQ then reader_run QUOTE_IN_QUOTED_FIELD f fs cs
      else reader_run IN_QUOTED_FIELD (f @ [c]) fs cs)"
| "reader_run QUOTE_IN_QUOTED_FIELD f fs (c # cs) =
     (if c = DQ then reader_run IN_QUOTED_FIELD (f @ [c]) fs cs
      else if c = CHR '','' then reader_run START_FIELD [] (fs @ [f]) cs
      else if c = CR then (fs @ [f]) # reader_run AFTER_CR [] [] cs
      else if c = LF then (fs @ [f]) # reader_run START_RECORD [] [] cs
      else reader_run IN_FIELD (f @ [c]) fs cs)"

definition csv_reader :: "string \<Rightarrow> string list list" where
  "csv_reader s = reader_run START_RECORD [] [] s"

definition csv_read_file :: "world \<Rightarrow> string \<Rightarrow> string list list option" where
  "csv_read_file w p = map_option csv_reader (files w p)"

text \<open>
  A record with the key set of the header, and the row the claim expects of it: the
  texts of its values, in the order of the header.
\<close>

fun same_keys :: "string list \<Rightarrow> json \<Rightarrow> bool" where
  "same_keys ks (JObj kvs) = (set (map fst kvs) = set ks)"
| "same_keys ks _ = False"

fun record_row :: "env \<Rightarrow> string list \<Rightarrow> json \<Rightarrow> string list" where
  "record_row E ks (JObj kvs) = map (\<lambda>k. csv_field_text E (dict_get kvs k)) ks"
| "record_row E ks _ = []"

section \<open>A sample environment\<close>

text \<open>
  A payload of 100000 opening brackets, nested beyond any recursion limit, and the
  float that \<open>json.loads\<close> makes of the text \<open>NaN\<close>.
\<close>

definition deep_payload :: string where
  "deep_payload = replicate 100000 CHR ''[''"

definition nan :: "64 word" where
  "nan = 0x7FF8000000000000"

text \<open>
  A decoder that does what \<open>json.loads\<close> does on five texts: \<open>{}\<close> and \<open>[]\<close> are
  the empty dict and list, \<open>NaN\<close> is accepted as a float, the deep payload raises
  \<open>RecursionError\<close>, and \<open>oops\<close> is a \<open>JSONDecodeError\<close>, as is every other text
  here.
\<close>

definition sample_loads :: "string \<Rightarrow> decode_failure + json" where
  "sample_loads s =
     (if s = ''{}'' then Inr (JObj [])
      else if s = ''[]'' then Inr (JArr [])
      else if s = ''NaN'' then Inr (JFloat nan)
      else if s = deep_payload
      then Inl (RecursionDepth
             ''maximum recursion depth exceeded while decoding a JSON array from a unicode string'')
      else Inl (JSONDecodeError ''Expecting value: line 1 column 1 (char 0)''))"

text \<open>
  A server that answers every request with the response \<open>r\<close>, behind a \<open>requests\<close>
  that refuses to send the float \<open>NaN\<close> as the body of a POST (it encodes the body
  with \<open>allow_nan=False\<close> and raises \<open>InvalidJSONError\<close>, a
  \<open>RequestException\<close>), and a file system that accepts every path.
\<close>

definition sample_http :: "response \<Rightarrow> http_request \<Rightarrow> string + response" where
  "sample_http r req =
     (case req of
        HttpGet u \<Rightarrow> Inr r
      | HttpPost u v \<Rightarrow>
          if v = JFloat nan then Inl ''Out of range float values are not JSON compliant''
          else Inr r)"

definition sample_env :: "response \<Rightarrow> env" where
  "sample_env r =
     \<lparr>http = sample_http r, json_loads = sample_loads,
      json_float = (\<lambda>x. if x = nan then ''NaN'' else ''1.5''),
      open_w = (\<lambda>_. None), py_repr = (\<lambda>_. ''1.5''), repr_fields = (\<lambda>_. [])\<rparr>"

definition world0 :: world where
  "world0 = \<lparr>stdout = [], files = (\<lambda>_. None), net_log = []\<rparr>"

definition get_client :: "string option \<Rightarrow> rest_client" where
  "get_client out = RestClient_init ''get'' ''/posts'' None out"

definition posts_url :: string where
  "posts_url = ''https://jsonplaceholder.typicode.com/posts''"

section \<open>Basic facts\<close>

lemma str_int_200: "str_int 200 = ''200''"
  by code_simp

lemma str_int_300: "str_int 300 = ''300''"
  by code_simp

lemma str_int_404: "str_int 404 = ''404''"
  by code_simp

lemma lower_GET: "lower ''GET'' = ''get''"
  by code_simp

lemma splitext_out_json: "splitext ''out.json'' = (''out'', ''.json'')"
  by (simp add: splitext_def after_last_def)

lemma splitext_out_csv: "splitext ''out.csv'' = (''out'', ''.csv'')"
  by (simp add: splitext_def after_last_def)

lemma splitext_report_txt: "splitext ''report.txt'' = (''report'', ''.txt'')"
  by (simp add: splitext_def after_last_def)

text \<open>A leading dot does not start an extension: \<open>.json\<close> has none.\<close>

lemma splitext_dotfile: "splitext ''.json'' = (''.json'', [])"
  by (simp add: splitext_def after_last_def)

lemma sample_issue_get:
  "issue_request (sample_env r) (get_client out) world0 =
     (Inr r, world0\<lparr>net_log := [HttpGet posts_url]\<rparr>)"
  by (simp add: issue_request_def get_client_def RestClient_init_def lower_def lower_char_def
      requests_call_def sample_env_def sample_http_def BASE_URL_def world0_def posts_url_def)

text \<open>The deep payload is none of the other sample texts.\<close>

lemma length_deep_payload: "length deep_payload = 100000"
  by (simp only: deep_payload_def length_replicate)

lemma deep_payload_other: "length s < 100000 \<Longrightarrow> deep_payload \<noteq> s"
  using length_deep_payload by auto

lemma deep_payload_neq [simp]:
  "deep_payload \<noteq> []" "deep_payload \<noteq> ''{}''" "deep_payload \<noteq> ''[]''"
  "deep_payload \<noteq> ''NaN''" "''oops'' \<noteq> deep_payload"
  by (simp_all add: deep_payload_other deep_payload_other[THEN not_sym])

lemma sample_loads_oops:
  "sample_loads ''oops'' = Inl (JSONDecodeError ''Expecting value: line 1 column 1 (char 0)'')"
  by (simp add: sample_loads_def)

lemma sample_loads_deep:
  "sample_loads deep_payload =
     Inl (RecursionDepth
            ''maximum recursion depth exceeded while decoding a JSON array from a unicode string'')"
  by (simp add: sample_loads_def)

lemma sample_loads_NaN: "sample_loads ''NaN'' = Inr (JFloat nan)"
  by (simp add: sample_loads_def)

lemma lower_post: "lower ''post'' = ''post''"
  by code_simp

text \<open>Issuing the request prints nothing and writes no file.\<close>

lemma issue_request_frame:
  "issue_request E self w = (res, w1) \<Longrightarrow> stdout w1 = stdout w \<and> files w1 = files w"
  by (auto simp: issue_request_def requests_call_def Let_def
      split: if_splits sum.splits decode_failure.splits)

text \<open>A request that fails before the call leaves the log of calls as it was.\<close>

lemma issue_request_ValueError_no_call:
  "issue_request E self w = (Inl (ValueError m), w1) \<Longrightarrow> w1 = w"
  by (auto simp: issue_request_def requests_call_def Let_def
      split: if_splits sum.splits decode_failure.splits)


text \<open>\<open>send_request\<close> catches neither a normal return nor \<open>SystemExit\<close>.\<close>

lemma send_request_passes_exit:
  "issue_request E self w = (Inr r, w1) \<Longrightarrow>
   handle_response E self r w1 = (Inl (SystemExit n), w2) \<Longrightarrow>
   send_request E self w = (Inl (SystemExit n), w2)"
  by (simp add: send_request_def)


lemma parse_args_invalid_choice:
  "m \<noteq> ''get'' \<Longrightarrow> m \<noteq> ''post'' \<Longrightarrow>
   parse_args \<lparr>positionals = m # rest, opt_data = d, opt_output = out\<rparr> = Inl (InvalidChoice m)"
  by (simp add: method_choices_def)

lemma save_response_unsupported:
  assumes "output self = Some p"
    and "snd (splitext p) \<noteq> ''.json''" and "snd (splitext p) \<noteq> ''.csv''"
  shows "save_response E self dat w =
     (Inl (SystemExit 1),
      print_line (''Error: Unsupported file format '' @ [sq] @ snd (splitext p) @ [sq] @ ''.'') w)"
  using assms by (simp add: save_response_def Let_def)


subsection \<open>The reader inverts the writer\<close>

lemma csv_chars_distinct [simp]:
  "CR \<noteq> LF" "CR \<noteq> DQ" "CR \<noteq> CHR '',''" "LF \<noteq> DQ" "LF \<noteq> CHR '',''" "DQ \<noteq> CHR '',''"
  "LF \<noteq> CR" "DQ \<noteq> CR" "CHR '','' \<noteq> CR" "DQ \<noteq> LF" "CHR '','' \<noteq> LF" "CHR '','' \<noteq> DQ"
  by (simp_all add: CR_def LF_def DQ_def)

lemma in_field_plain:
  "\<forall>c \<in> set g. \<not> csv_special c \<Longrightarrow>
   reader_run IN_FIELD f fs (g @ rest) = reader_run IN_FIELD (f @ g) fs rest"
  by (induction g arbitrary: f) (auto simp: csv_special_def)

lemma in_quoted_escape:
  "reader_run IN_QUOTED_FIELD f fs (csv_escape g @ rest) =
   reader_run IN_QUOTED_FIELD (f @ g) fs rest"
  by (induction g arbitrary: f) (auto simp: csv_escape_def)

text \<open>One field and the comma after it.\<close>

lemma field_comma:
  "reader_run START_FIELD f0 fs (csv_quote g @ CHR '','' # rest) =
   reader_run START_FIELD [] (fs @ [g]) rest"
proof (cases "\<exists>c \<in> set g. csv_special c")
  case True
  then show ?thesis
    using in_quoted_escape[of "[]" fs g "DQ # CHR '','' # rest"]
    by (simp add: csv_quote_def start_field_def)
next
  case False
  show ?thesis
  proof (cases g)
    case Nil
    then show ?thesis by (simp add: csv_quote_def start_field_def)
  next
    case (Cons c g')
    with False have c: "\<not> csv_special c" and g': "\<forall>c \<in> set g'. \<not> csv_special c" by auto
    show ?thesis
      using False Cons c in_field_plain[OF g', of "[c]" fs "CHR '','' # rest"]
      by (auto simp: csv_quote_def start_field_def csv_special_def)
  qed
qed

text \<open>The last field of a row and the line end after it.\<close>

lemma field_end:
  "reader_run START_FIELD f0 fs (csv_quote g @ CR # LF # rest) =
   (fs @ [g]) # reader_run START_RECORD [] [] rest"
proof (cases "\<exists>c \<in> set g. csv_special c")
  case True
  then show ?thesis
    using in_quoted_escape[of "[]" fs g "DQ # CR # LF # rest"]
    by (simp add: csv_quote_def start_field_def)
next
  case False
  show ?thesis
  proof (cases g)
    case Nil
    then show ?thesis by (simp add: csv_quote_def start_field_def)
  next
    case (Cons c g')
    with False have c: "\<not> csv_special c" and g': "\<forall>c \<in> set g'. \<not> csv_special c" by auto
    show ?thesis
      using False Cons c in_field_plain[OF g', of "[c]" fs "CR # LF # rest"]
      by (auto simp: csv_quote_def start_field_def csv_special_def)
  qed
qed

lemma row_from_field:
  "gs \<noteq> [] \<Longrightarrow>
   reader_run START_FIELD f0 fs (join '','' (map csv_quote gs) @ CR # LF # rest) =
   (fs @ gs) # reader_run START_RECORD [] [] rest"
proof (induction gs arbitrary: fs f0)
  case Nil
  then show ?case by simp
next
  case (Cons g gs)
  show ?case
  proof (cases gs)
    case Nil
    then show ?thesis using field_end by simp
  next
    case (Cons g' gs')
    then show ?thesis
      using Cons.IH[of "[]" "fs @ [g]"] field_comma[of f0 fs g]
      by simp
  qed
qed

text \<open>At the start of a record the reader acts as at the start of a field, unless the line is empty.\<close>

lemma start_record_as_field:
  "s \<noteq> [] \<Longrightarrow> hd s \<noteq> CR \<Longrightarrow> hd s \<noteq> LF \<Longrightarrow>
   reader_run START_RECORD f fs s = reader_run START_FIELD [] [] s"
  by (cases s) auto

lemma csv_quote_hd:
  "g \<noteq> [] \<Longrightarrow> csv_quote g \<noteq> [] \<and> hd (csv_quote g) \<noteq> CR \<and> hd (csv_quote g) \<noteq> LF"
  by (cases g) (auto simp: csv_quote_def csv_special_def)

lemma reader_line:
  "reader_run START_RECORD f fs (csv_line gs @ rest) = gs # reader_run START_RECORD [] [] rest"
proof (cases "gs = []")
  case True
  then show ?thesis by (simp add: csv_line_def)
next
  case ne: False
  show ?thesis
  proof (cases "gs = [[]]")
    case True
    then show ?thesis
      by (simp add: csv_line_def start_field_def)
  next
    case False
    let ?s = "join '','' (map csv_quote gs) @ CR # LF # rest"
    have "?s \<noteq> [] \<and> hd ?s \<noteq> CR \<and> hd ?s \<noteq> LF"
    proof (cases gs)
      case Nil
      with ne show ?thesis by simp
    next
      case (Cons g gs')
      show ?thesis
      proof (cases gs')
        case Nil
        with Cons False have "g \<noteq> []" by simp
        with csv_quote_hd[of g] Cons Nil show ?thesis by (cases "csv_quote g") auto
      next
        case c2: (Cons g' gs'')
        show ?thesis
        proof (cases "g = []")
          case True
          with Cons c2 show ?thesis by (simp add: csv_quote_def)
        next
          case False
          with csv_quote_hd[of g] Cons c2 show ?thesis by (cases "csv_quote g") auto
        qed
      qed
    qed
    then have "reader_run START_RECORD f fs ?s = reader_run START_FIELD [] [] ?s"
      using start_record_as_field by blast
    with row_from_field[OF ne, of "[]" "[]" rest] False show ?thesis
      by (simp add: csv_line_def)
  qed
qed

lemma reader_lines:
  "reader_run START_RECORD [] [] (concat (map csv_line rows) @ rest) =
   rows @ reader_run START_RECORD [] [] rest"
  by (induction rows) (simp_all add: reader_line)

lemma csv_round_trip: "csv_reader (concat (map csv_line rows)) = rows"
  using reader_lines[of rows "[]"] by (simp add: csv_reader_def)

subsection \<open>The text of \<open>json_dumps\<close>\<close>

lemma json_dumps_empty_dict: "json_dumps E n (JObj []) = ''{}''"
  by (simp add: json_dumps_def)

text \<open>The indentation is four blanks a level.\<close>

lemma json_dumps_example:
  "json_dumps E 4 (JObj [(''id'', JInt 1), (''tags'', JArr [JStr ''x'', JNull])]) =
     ''{'' @ [LF] @ ''    '' @ [DQ] @ ''id'' @ [DQ] @ '': 1,'' @ [LF]
     @ ''    '' @ [DQ] @ ''tags'' @ [DQ] @ '': ['' @ [LF]
     @ ''        '' @ [DQ] @ ''x'' @ [DQ] @ '','' @ [LF]
     @ ''        null'' @ [LF]
     @ ''    ]'' @ [LF] @ ''}''"
proof -
  have s: "str_int 1 = ''1''" by code_simp
  show ?thesis
    by (simp add: json_dumps_def json_string_def json_escape_char_def newline_indent_def s
        DQ_def BS_def LF_def CR_def eval_nat_numeral)
qed

subsection \<open>Writing uniform records\<close>

lemma dict_to_list_same_keys:
  "same_keys ks r \<Longrightarrow>
   \<exists>vs. dict_to_list E ks r = Inr vs \<and> csv_writerow E vs = csv_line (record_row E ks r)"
  by (cases r) (auto simp: csv_writerow_def filter_empty_conv comp_def)

lemma file_append_append:
  "file_append p b (file_append p a w) = file_append p (a @ b) w"
  by (cases "files w p") (simp_all add: file_append_def)

lemma file_append_Nil:
  "files w p = Some c \<Longrightarrow> file_append p [] w = w"
  by (simp add: file_append_def fun_upd_idem)

lemma writerows_same_keys:
  "list_all (same_keys ks) rs \<Longrightarrow> files w p = Some c \<Longrightarrow>
   writerows E ks p rs w =
     (Inr (), file_append p (concat (map (\<lambda>r. csv_line (record_row E ks r)) rs)) w)"
proof (induction rs arbitrary: w c)
  case Nil
  then show ?case by (simp add: file_append_Nil)
next
  case (Cons r rs)
  from Cons.prems obtain vs where vs: "dict_to_list E ks r = Inr vs"
    "csv_writerow E vs = csv_line (record_row E ks r)"
    using dict_to_list_same_keys[of ks r E] by auto
  let ?w = "file_append p (csv_line (record_row E ks r)) w"
  have f: "files ?w p = Some (c @ csv_line (record_row E ks r))"
    using Cons.prems by (simp add: file_append_def)
  have rest: "list_all (same_keys ks) rs" using Cons.prems by simp
  have "writerows E ks p (r # rs) w = writerows E ks p rs ?w"
    using vs by simp
  also note Cons.IH[OF rest f]
  finally show ?case by (simp only: file_append_append concat.simps list.map)
qed

text \<open>
  Saving a non-empty list of records with the key set of the first one: the file holds
  the header row and one row per record, and the confirmation is printed.
\<close>

lemma save_csv_uniform:
  assumes "output self = Some p" and "snd (splitext p) = ''.csv''" and "open_w E p = None"
    and "list_all (same_keys (map fst kvs)) rs"
  shows "save_response E self (JArr (JObj kvs # rs)) w =
     (Inr (), print_line (''Response successfully saved to '' @ p)
        (w\<lparr>files := (files w)(p \<mapsto>
             concat (map csv_line (map fst kvs # map (record_row E (map fst kvs)) (JObj kvs # rs))))\<rparr>))"
proof -
  let ?ks = "map fst kvs"
  let ?body = "concat (map (\<lambda>r. csv_line (record_row E ?ks r)) (JObj kvs # rs))"
  let ?w1 = "w\<lparr>files := (files w)(p \<mapsto> [])\<rparr>"
  let ?w2 = "file_append p (csv_line ?ks) ?w1"
  have all: "list_all (same_keys ?ks) (JObj kvs # rs)" using assms(4) by simp
  have f: "files ?w2 p = Some (csv_line ?ks)" by (simp add: file_append_def)
  have wr: "writerows E ?ks p (JObj kvs # rs) ?w2 = (Inr (), file_append p ?body ?w2)"
    by (rule writerows_same_keys[OF all f])
  have w3: "file_append p ?body ?w2 =
              w\<lparr>files := (files w)(p \<mapsto> csv_line ?ks @ ?body)\<rparr>"
    unfolding file_append_append by (simp add: file_append_def)
  have "save_csv E self (JArr (JObj kvs # rs)) w =
     (Inr (), print_line (''Response successfully saved to '' @ p)
                (w\<lparr>files := (files w)(p \<mapsto> csv_line ?ks @ ?body)\<rparr>))"
    unfolding save_csv_def using assms(1,3) wr w3
    by (simp add: py_open_w_def file_write_handler_def Let_def del: writerows.simps)
  then show ?thesis
    using assms(1,2)
    by (simp add: save_response_def Let_def comp_def)
qed

subsection \<open>Writing a JSON file\<close>

text \<open>
  Saving a body to a destination with the extension \<open>.json\<close> that opens puts exactly
  \<open>json.dumps(body, indent=4)\<close> in the file, in place of what it held, and prints
  the confirmation.
\<close>

lemma save_json_writes_dumps:
  assumes "output self = Some p" and "snd (splitext p) = ''.json''" and "open_w E p = None"
  shows "save_response E self body w =
           (Inr (), print_line (''Response successfully saved to '' @ p)
                      (w\<lparr>files := (files w)(p \<mapsto> json_dumps E 4 body)\<rparr>))"
  using assms
  by (simp add: save_response_def save_json_def py_open_w_def file_write_handler_def Let_def
      file_append_def)

section \<open>The claims\<close>

subsection \<open>Responses that are not a success\<close>

text \<open>
  C1, as the code has it: for every response whose status code is from 400 to 599
  (the codes for which \<open>Response.ok\<close> is false), the program prints the status code,
  prints the error message and exits with status 1; no file is written, whether or not
  an output destination was supplied.
\<close>

theorem C1_failure_status_exits:
  assumes "issue_request E self w = (Inr r, w1)"
    and "400 \<le> status_code r" and "status_code r < 600"
  shows "send_request E self w =
           (Inl (SystemExit 1),
            w1\<lparr>stdout := stdout w @ [''HTTP Status Code: '' @ str_int (status_code r),
                                     ''Error: Request was not successful.'']\<rparr>)
         \<and> files w1 = files w"
  using assms issue_request_frame[OF assms(1)]
  by (simp add: send_request_def handle_response_def ok_def print_line_def)

theorem C1_failure_status_exits_witness:
  "send_request (sample_env \<lparr>status_code = 404, content = ''{}''\<rparr>)
     (get_client (Some ''out.json'')) world0 =
     (Inl (SystemExit 1),
      \<lparr>stdout = [''HTTP Status Code: 404'', ''Error: Request was not successful.''],
       files = files world0,
       net_log = [HttpGet posts_url]\<rparr>)"
  using C1_failure_status_exits[OF sample_issue_get, of "\<lparr>status_code = 404, content = ''{}''\<rparr>"
      "Some ''out.json''"]
  by (simp add: str_int_404 world0_def)

text \<open>
  C1 as stated fails for a status code outside 200..299 that \<open>Response.ok\<close> accepts:
  a response with status 300 and the body \<open>{}\<close>, with \<open>-o out.json\<close>, is saved to
  the file and the program returns normally.
\<close>

theorem C1_non_2xx_counterexample:
  "\<not> (200 \<le> status_code \<lparr>status_code = 300, content = ''{}''\<rparr>
       \<and> status_code \<lparr>status_code = 300, content = ''{}''\<rparr> < 300)
   \<and> send_request (sample_env \<lparr>status_code = 300, content = ''{}''\<rparr>)
        (get_client (Some ''out.json'')) world0 =
     (Inr (),
      \<lparr>stdout = [''HTTP Status Code: 300'', ''Response successfully saved to out.json''],
       files = (files world0)(''out.json'' \<mapsto> ''{}''),
       net_log = [HttpGet posts_url]\<rparr>)"
  unfolding send_request_def sample_issue_get
  by (simp add: handle_response_def ok_def print_line_def
      str_int_300 splitext_out_json response_json_def save_response_def save_json_def
      py_open_w_def file_write_handler_def file_append_def Let_def get_client_def
      RestClient_init_def sample_env_def sample_loads_def world0_def json_dumps_empty_dict)

subsection \<open>The method token\<close>

text \<open>
  C2 at the command line \<open>GET /posts/1\<close>: the parser refuses the token \<open>GET\<close> and
  the process ends with status 2 before anything is printed or sent, although
  \<open>RestClient.__init__\<close> would lower the same token to \<open>get\<close>.
\<close>

theorem C2_uppercase_method_rejected:
  "main E \<lparr>positionals = [''GET'', ''/posts/1''], opt_data = None, opt_output = None\<rparr> w =
     (Inl (SystemExit 2), w)
   \<and> method (RestClient_init ''GET'' ''/posts/1'' None None) = ''get''"
  by (simp add: main_def method_choices_def RestClient_init_def lower_GET)

subsection \<open>The payload of a POST\<close>

text \<open>
  C3: a POST with no payload ends with status 1 after printing
  \<open>Invalid input: For POST requests, data is required.\<close>; the log of network calls
  and the files are as before.
\<close>

theorem C3_post_without_payload:
  "main E \<lparr>positionals = [''post'', e], opt_data = None, opt_output = out\<rparr> w =
     (Inl (SystemExit 1),
      w\<lparr>stdout := stdout w @ [''Invalid input: For POST requests, data is required.'']\<rparr>)"
  by (simp add: main_def method_choices_def RestClient_init_def send_request_def
      issue_request_def print_line_def lower_def lower_char_def)

text \<open>
  C4, as the code has it: a POST whose payload \<open>json.loads\<close> fails to decode ends
  with status 1 before any network call is made and without writing a file. When the
  decoder raises a \<open>JSONDecodeError\<close> or another \<open>ValueError\<close>, the program has
  printed \<open>Invalid input:\<close> and the reason, which is the decoder's message (for the
  empty payload, that data is required). When the decoder raises \<open>RecursionError\<close>, on
  a payload nested beyond the recursion limit, nothing catches the exception and nothing
  is printed.
\<close>

theorem C4_undecodable_payload:
  assumes "json_loads E d = Inl e"
  shows "main E \<lparr>positionals = [''post'', ep], opt_data = Some d, opt_output = out\<rparr> w =
           (if d = []
            then (Inl (SystemExit 1),
                  w\<lparr>stdout := stdout w @
                      [''Invalid input: For POST requests, data is required.'']\<rparr>)
            else case e of
                   JSONDecodeError m \<Rightarrow>
                     (Inl (SystemExit 1), w\<lparr>stdout := stdout w @ [''Invalid input: '' @ m]\<rparr>)
                 | PlainValueError m \<Rightarrow>
                     (Inl (SystemExit 1), w\<lparr>stdout := stdout w @ [''Invalid input: '' @ m]\<rparr>)
                 | RecursionDepth m \<Rightarrow> (Inl (RecursionError m), w))
         \<and> exit_status
               (fst (main E \<lparr>positionals = [''post'', ep], opt_data = Some d,
                              opt_output = out\<rparr> w)) = 1"
  using assms
  by (cases e)
    (simp_all add: main_def method_choices_def RestClient_init_def send_request_def
      issue_request_def print_line_def lower_post)

theorem C4_undecodable_payload_witness:
  "main (sample_env \<lparr>status_code = 200, content = ''{}''\<rparr>)
     \<lparr>positionals = [''post'', ''/posts''], opt_data = Some ''oops'', opt_output = None\<rparr> world0 =
     (Inl (SystemExit 1),
      \<lparr>stdout = [''Invalid input: Expecting value: line 1 column 1 (char 0)''],
       files = files world0, net_log = []\<rparr>)
   \<and> exit_status
         (fst (main (sample_env \<lparr>status_code = 200, content = ''{}''\<rparr>)
                 \<lparr>positionals = [''post'', ''/posts''], opt_data = Some ''oops'',
                  opt_output = None\<rparr> world0)) = 1"
proof -
  have "json_loads (sample_env \<lparr>status_code = 200, content = ''{}''\<rparr>) ''oops'' =
          Inl (JSONDecodeError ''Expecting value: line 1 column 1 (char 0)'')"
    by (simp add: sample_env_def sample_loads_oops)
  from C4_undecodable_payload[OF this, of "''/posts''" None world0]
  show ?thesis by (simp add: world0_def)
qed

text \<open>
  C4 as stated fails on two payloads that are not JSON texts. The payload of 100000
  opening brackets makes \<open>json.loads\<close> raise \<open>RecursionError\<close>, which is not a
  \<open>ValueError\<close>: the exception leaves \<open>main\<close> uncaught and no \<open>Invalid input:\<close>
  line is printed. The payload \<open>NaN\<close> is accepted by \<open>json.loads\<close>, as a float: the
  value is handed to \<open>requests.post\<close>, and what is printed is a \<open>Network error:\<close>
  line.
\<close>

theorem C4_not_json_counterexample:
  "main (sample_env \<lparr>status_code = 200, content = ''{}''\<rparr>)
     \<lparr>positionals = [''post'', ''/posts''], opt_data = Some deep_payload, opt_output = None\<rparr>
     world0 =
     (Inl (RecursionError
             ''maximum recursion depth exceeded while decoding a JSON array from a unicode string''),
      world0)
   \<and> main (sample_env \<lparr>status_code = 200, content = ''{}''\<rparr>)
       \<lparr>positionals = [''post'', ''/posts''], opt_data = Some ''NaN'', opt_output = None\<rparr>
       world0 =
     (Inl (SystemExit 1),
      \<lparr>stdout = [''Network error: Out of range float values are not JSON compliant''],
       files = files world0,
       net_log = [HttpPost posts_url (JFloat nan)]\<rparr>)"
  by (simp add: main_def method_choices_def RestClient_init_def send_request_def
      issue_request_def requests_call_def print_line_def lower_post sample_env_def
      sample_http_def sample_loads_deep sample_loads_NaN BASE_URL_def posts_url_def world0_def)

text \<open>
  C10: a POST whose payload is the empty string is treated as one with no payload: it
  ends with status 1 after printing that data is required, whatever \<open>json.loads\<close>
  would say of the empty string; no network call is made.
\<close>

theorem C10_post_empty_payload:
  "main E \<lparr>positionals = [''post'', e], opt_data = Some [], opt_output = out\<rparr> w =
     (Inl (SystemExit 1),
      w\<lparr>stdout := stdout w @ [''Invalid input: For POST requests, data is required.'']\<rparr>)"
  by (simp add: main_def method_choices_def RestClient_init_def send_request_def
      issue_request_def print_line_def lower_def lower_char_def)

subsection \<open>Saving the response\<close>

text \<open>
  C5: saving the empty list to a destination with the extension \<open>.csv\<close> fails with
  status 1: when the file opens, it is left empty (no header row is made up) and the
  message is \<open>File write error: list index out of range\<close>; when it does not open,
  the message is the system's.
\<close>

theorem C5_csv_empty_sequence:
  assumes "output self = Some p" and "snd (splitext p) = ''.csv''"
  shows "save_response E self (JArr []) w =
     (Inl (SystemExit 1),
      case open_w E p of
        Some m \<Rightarrow> print_line (''File write error: '' @ m) w
      | None \<Rightarrow> print_line ''File write error: list index out of range''
                  (w\<lparr>files := (files w)(p \<mapsto> [])\<rparr>))"
  using assms
  by (simp add: save_response_def save_csv_def py_open_w_def file_write_handler_def Let_def
      split: option.splits)

theorem C5_csv_empty_sequence_witness:
  "save_response (sample_env \<lparr>status_code = 200, content = ''[]''\<rparr>)
     (get_client (Some ''out.csv'')) (JArr []) world0 =
     (Inl (SystemExit 1),
      \<lparr>stdout = [''File write error: list index out of range''],
       files = (files world0)(''out.csv'' \<mapsto> []), net_log = []\<rparr>)"
  using C5_csv_empty_sequence[of "get_client (Some ''out.csv'')" "''out.csv''"
      "sample_env \<lparr>status_code = 200, content = ''[]''\<rparr>" world0]
  by (simp add: get_client_def RestClient_init_def splitext_out_csv sample_env_def
      print_line_def world0_def)

text \<open>
  C6: with a success response whose body decodes and a destination (a non-empty
  \<open>-o\<close> value) whose extension is neither \<open>.json\<close> nor \<open>.csv\<close>, the program prints
  the status code and \<open>Error: Unsupported file format\<close> with the extension, and exits
  with status 1; the files are as before.
\<close>

theorem C6_unsupported_extension:
  assumes "issue_request E self w = (Inr r, w1)" and "ok r"
    and "json_loads E (content r) = Inr body"
    and "output self = Some p" and "p \<noteq> []"
    and "snd (splitext p) \<noteq> ''.json''" and "snd (splitext p) \<noteq> ''.csv''"
  shows "send_request E self w =
     (Inl (SystemExit 1),
      w1\<lparr>stdout := stdout w @
         [''HTTP Status Code: '' @ str_int (status_code r),
          ''Error: Unsupported file format '' @ [sq] @ snd (splitext p) @ [sq] @ ''.'']\<rparr>)
     \<and> files w1 = files w"
proof -
  let ?w1 = "print_line (''HTTP Status Code: '' @ str_int (status_code r)) w1"
  have h: "handle_response E self r w1 = save_response E self body ?w1"
    using assms by (simp add: handle_response_def response_json_def Let_def)
  show ?thesis
    using send_request_passes_exit[OF assms(1), of 1] h
      save_response_unsupported[OF assms(4,6,7), of E body ?w1] issue_request_frame[OF assms(1)]
    by (simp add: print_line_def)
qed

theorem C6_unsupported_extension_witness:
  "send_request (sample_env \<lparr>status_code = 200, content = ''{}''\<rparr>)
     (get_client (Some ''report.txt'')) world0 =
     (Inl (SystemExit 1),
      \<lparr>stdout = [''HTTP Status Code: 200'',
                 ''Error: Unsupported file format '' @ [sq] @ ''.txt'' @ [sq] @ ''.''],
       files = files world0, net_log = [HttpGet posts_url]\<rparr>)"
proof -
  let ?r = "\<lparr>status_code = 200, content = ''{}''\<rparr>"
  have a: "ok ?r" by (simp add: ok_def)
  have b: "json_loads (sample_env ?r) (content ?r) = Inr (JObj [])"
    by (simp add: sample_env_def sample_loads_def)
  have c: "output (get_client (Some ''report.txt'')) = Some ''report.txt''"
    by (simp add: get_client_def RestClient_init_def)
  have d: "''report.txt'' \<noteq> []" by simp
  have e: "snd (splitext ''report.txt'') \<noteq> ''.json''" "snd (splitext ''report.txt'') \<noteq> ''.csv''"
    by (simp_all add: splitext_report_txt)
  from C6_unsupported_extension[OF sample_issue_get a b c d e]
  show ?thesis by (simp add: str_int_200 splitext_report_txt world0_def)
qed

text \<open>
  C7, as the code has it: saving a non-empty list of records that all have the key
  set of the first one to a destination with the extension \<open>.csv\<close> that opens writes
  the header row, the keys of the first record in their order, and then one row per
  record in the order of the list; reparsing the file gives back the header and, for
  each record, the texts of its values in the order of the header, where the text of a
  value is what \<open>csv.writer\<close> makes of it: the empty string for \<open>None\<close>, the string
  itself for a string, and \<open>str\<close> of the value otherwise.
\<close>

theorem C7_csv_rows_round_trip:
  assumes "output self = Some p" and "snd (splitext p) = ''.csv''" and "open_w E p = None"
    and "list_all (same_keys (map fst kvs)) rs"
  shows "fst (save_response E self (JArr (JObj kvs # rs)) w) = Inr ()
       \<and> csv_read_file (snd (save_response E self (JArr (JObj kvs # rs)) w)) p =
           Some (map fst kvs # map (record_row E (map fst kvs)) (JObj kvs # rs))"
proof -
  let ?T = "map fst kvs # map (record_row E (map fst kvs)) (JObj kvs # rs)"
  let ?w' = "print_line (''Response successfully saved to '' @ p)
               (w\<lparr>files := (files w)(p \<mapsto> concat (map csv_line ?T))\<rparr>)"
  have s: "save_response E self (JArr (JObj kvs # rs)) w = (Inr (), ?w')"
    by (rule save_csv_uniform[OF assms])
  have f: "files ?w' p = Some (concat (map csv_line ?T))"
    by (simp add: print_line_def)
  have "csv_read_file ?w' p = Some (csv_reader (concat (map csv_line ?T)))"
    unfolding csv_read_file_def f by (simp only: option.map)
  then have r: "csv_read_file ?w' p = Some ?T"
    by (simp only: csv_round_trip)
  show ?thesis
    unfolding s fst_conv snd_conv using r by (intro conjI refl)
qed

theorem C7_csv_rows_round_trip_witness:
  "fst (save_response (sample_env \<lparr>status_code = 200, content = ''[]''\<rparr>)
          (get_client (Some ''out.csv''))
          (JArr [JObj [(''id'', JInt 1), (''title'', JStr ''a,b'')],
                 JObj [(''title'', JNull), (''id'', JInt 2)]]) world0) = Inr ()
   \<and> csv_read_file
        (snd (save_response (sample_env \<lparr>status_code = 200, content = ''[]''\<rparr>)
                (get_client (Some ''out.csv''))
                (JArr [JObj [(''id'', JInt 1), (''title'', JStr ''a,b'')],
                       JObj [(''title'', JNull), (''id'', JInt 2)]]) world0))
        ''out.csv'' =
       Some [[''id'', ''title''], [''1'', ''a,b''], [''2'', []]]"
proof -
  let ?E = "sample_env \<lparr>status_code = 200, content = ''[]''\<rparr>"
  have a: "output (get_client (Some ''out.csv'')) = Some ''out.csv''"
    by (simp add: get_client_def RestClient_init_def)
  have b: "snd (splitext ''out.csv'') = ''.csv''" by (simp add: splitext_out_csv)
  have c: "open_w ?E ''out.csv'' = None" by (simp add: sample_env_def)
  have d: "list_all (same_keys (map fst [(''id'', JInt 1), (''title'', JStr ''a,b'')]))
             [JObj [(''title'', JNull), (''id'', JInt 2)]]"
    by auto
  have s1: "str_int 1 = ''1''" by code_simp
  have s2: "str_int 2 = ''2''" by code_simp
  from C7_csv_rows_round_trip[OF a b c d, of world0]
  show ?thesis by (simp add: dict_get_def s1 s2)
qed

text \<open>
  C7 as stated fails where a value is \<open>None\<close>: the list with the one record
  \<open>{"a": null}\<close> is saved as the header \<open>a\<close> and a row whose field reparses as the
  empty string, while the string representation of \<open>None\<close> is \<open>None\<close>.
\<close>

theorem C7_null_field_counterexample:
  "csv_read_file
     (snd (save_response (sample_env \<lparr>status_code = 200, content = ''[]''\<rparr>)
             (get_client (Some ''out.csv'')) (JArr [JObj [(''a'', JNull)]]) world0))
     ''out.csv'' = Some [[''a''], [[]]]
   \<and> py_str (sample_env \<lparr>status_code = 200, content = ''[]''\<rparr>) JNull = ''None''
   \<and> [[]] \<noteq> [py_str (sample_env \<lparr>status_code = 200, content = ''[]''\<rparr>) JNull]"
proof -
  let ?E = "sample_env \<lparr>status_code = 200, content = ''[]''\<rparr>"
  have a: "output (get_client (Some ''out.csv'')) = Some ''out.csv''"
    by (simp add: get_client_def RestClient_init_def)
  have b: "snd (splitext ''out.csv'') = ''.csv''" by (simp add: splitext_out_csv)
  have c: "open_w ?E ''out.csv'' = None" by (simp add: sample_env_def)
  have d: "list_all (same_keys (map fst [(''a'', JNull)])) []" by simp
  let ?T = "map fst [(''a'', JNull)] # map (record_row ?E (map fst [(''a'', JNull)])) [JObj [(''a'', JNull)]]"
  let ?w' = "print_line (''Response successfully saved to '' @ ''out.csv'')
               (world0\<lparr>files := (files world0)(''out.csv'' \<mapsto> concat (map csv_line ?T))\<rparr>)"
  have s: "save_response ?E (get_client (Some ''out.csv'')) (JArr [JObj [(''a'', JNull)]]) world0 =
             (Inr (), ?w')"
    by (rule save_csv_uniform[OF a b c d])
  have f: "files ?w' ''out.csv'' = Some (concat (map csv_line ?T))"
    by (simp add: print_line_def)
  have "csv_read_file ?w' ''out.csv'' = Some (csv_reader (concat (map csv_line ?T)))"
    unfolding csv_read_file_def f by (simp only: option.map)
  then have "csv_read_file ?w' ''out.csv'' = Some ?T"
    by (simp only: csv_round_trip)
  then have r: "csv_read_file ?w' ''out.csv'' = Some [[''a''], [[]]]"
    by (simp add: dict_get_def)
  show ?thesis
    unfolding s snd_conv using r by simp
qed

subsection \<open>Standard output on success\<close>



end
